theory Spec2Isabelle
  imports Complex_Main "HOL-Library.Multiset"
begin

section \<open>Digital media library: model of media.py, content_types.py and library.py\<close>

text \<open>
  The three Python modules are embedded shallowly.

  \<^item> Python \<open>str\<close> is \<open>string\<close>; a \<open>char\<close> stands for one code point below 256, so the
    model covers Latin-1 text.
  \<^item> Python \<open>float\<close> is idealised as \<open>real\<close>: sums, quotients and comparisons are exact.
  \<^item> A naive \<open>datetime\<close> is an \<open>int\<close>, the number of microseconds since a fixed origin;
    \<open>datetime.now()\<close> is the parameter \<open>now\<close> of every function that reads the clock.
  \<^item> Every \<open>raise\<close> is a value \<open>Inl e\<close>. A method that mutates \<open>self\<close> returns the pair of
    its result and the state of \<open>self\<close> after the call, so that a failing call still says
    what it left behind.
  \<^item> Media objects live in a store indexed by references. The library holds references,
    and Python's default \<open>==\<close> on objects (no \<open>__eq__\<close> is defined anywhere in the
    repository) is equality of references.
\<close>

subsection \<open>Errors and dynamic values\<close>

datatype error = ValueError string | NameError string

type_synonym datetime = int

definition timedelta :: "int \<Rightarrow> int" where
  \<comment> \<open>\<open>timedelta(days=d)\<close> in microseconds\<close>
  "timedelta d = d * 86400000000"

datatype pyvalue = PyInt int | PyFloat real | PyBool bool | PyStr string | PyNone

fun as_number :: "pyvalue \<Rightarrow> real option" where
  \<comment> \<open>\<open>isinstance(v, (int, float))\<close> together with the numeric value; \<open>bool\<close> is a subclass of \<open>int\<close>\<close>
  "as_number (PyInt i) = Some (real_of_int i)"
| "as_number (PyFloat x) = Some x"
| "as_number (PyBool b) = Some (if b then 1 else 0)"
| "as_number (PyStr s) = None"
| "as_number PyNone = None"

definition truthy :: "real option \<Rightarrow> bool" where
  \<comment> \<open>truth value of an \<open>Optional[float]\<close>: \<open>None\<close> and zero are false\<close>
  "truthy x = (case x of None \<Rightarrow> False | Some v \<Rightarrow> v \<noteq> 0)"


subsection \<open>Strings\<close>

definition isspace :: "char \<Rightarrow> bool" where
  "isspace c = (let n = (of_char c :: nat) in
     (9 \<le> n \<and> n \<le> 13) \<or> (28 \<le> n \<and> n \<le> 32) \<or> n = 133 \<or> n = 160)"

definition strip :: "string \<Rightarrow> string" where
  "strip s = rev (dropWhile isspace (rev (dropWhile isspace s)))"

definition lower_char :: "char \<Rightarrow> char" where
  "lower_char c = (let n = (of_char c :: nat) in
     if (65 \<le> n \<and> n \<le> 90) \<or> (192 \<le> n \<and> n \<le> 222 \<and> n \<noteq> 215) then char_of (n + 32) else c)"

definition lower :: "string \<Rightarrow> string" where
  "lower s = map lower_char s"



definition quoted :: "string \<Rightarrow> string" where
  \<comment> \<open>a text between two apostrophes, as the messages of the source print it\<close>
  "quoted s = [CHR 0x27] @ s @ [CHR 0x27]"

definition replace_space_dash :: "string \<Rightarrow> string" where
  \<comment> \<open>\<open>s.replace(' ', '-')\<close>\<close>
  "replace_space_dash s = map (\<lambda>c. if c = CHR '' '' then CHR ''-'' else c) s"

subsection \<open>media.py\<close>

datatype MediaType = MOVIE | TV_SHOW | MUSIC | PODCAST

fun MediaType_value :: "MediaType \<Rightarrow> string" where
  "MediaType_value MOVIE = ''movie''"
| "MediaType_value TV_SHOW = ''tv_show''"
| "MediaType_value MUSIC = ''music''"
| "MediaType_value PODCAST = ''podcast''"

datatype ContentRating = G | PG | PG_13 | R | NC_17 | UNRATED

record MediaContent =
  title :: string
  duration_minutes :: int
  release_date :: datetime
  content_rating :: ContentRating
  genres :: "string list"
  description :: string
  view_count :: int
  average_rating :: real
  ratings :: "real list"
  created_at :: datetime

definition MediaContent_init ::
  "datetime \<Rightarrow> string \<Rightarrow> int \<Rightarrow> datetime \<Rightarrow> ContentRating \<Rightarrow> string list \<Rightarrow> string
     \<Rightarrow> error + MediaContent" where
  "MediaContent_init now t d rd cr gs ds =
     (if t = [] then Inl (ValueError ''Title must be a non-empty string'')
      else if d \<le> 0 then Inl (ValueError ''Duration must be a positive integer'')
      else if gs = [] then Inl (ValueError ''Genres must be a non-empty list'')
      else Inr \<lparr> title = strip t,
                 duration_minutes = d,
                 release_date = rd,
                 content_rating = cr,
                 genres = map (\<lambda>genre. lower (strip genre)) gs,
                 description = strip ds,
                 view_count = 0,
                 average_rating = 0,
                 ratings = [],
                 created_at = now \<rparr>)"

definition add_view :: "'a MediaContent_scheme \<Rightarrow> 'a MediaContent_scheme" where
  "add_view self = self\<lparr>view_count := view_count self + 1\<rparr>"

definition add_rating ::
  "'a MediaContent_scheme \<Rightarrow> pyvalue \<Rightarrow> (error + unit) \<times> 'a MediaContent_scheme" where
  "add_rating self rating =
     (case as_number rating of
        None \<Rightarrow> (Inl (ValueError ''Rating must be between 1.0 and 5.0''), self)
      | Some x \<Rightarrow>
          if \<not> (1 \<le> x \<and> x \<le> 5)
          then (Inl (ValueError ''Rating must be between 1.0 and 5.0''), self)
          else (let self1 = self\<lparr>ratings := ratings self @ [x]\<rparr>
                in (Inr (), self1\<lparr>average_rating :=
                                    sum_list (ratings self1) / real (length (ratings self1))\<rparr>)))"


definition is_recently_released :: "datetime \<Rightarrow> 'a MediaContent_scheme \<Rightarrow> int \<Rightarrow> bool" where
  "is_recently_released now self days =
     (let cutoff_date = now - timedelta days in release_date self \<ge> cutoff_date)"

definition is_age_appropriate :: "'a MediaContent_scheme \<Rightarrow> int \<Rightarrow> bool" where
  "is_age_appropriate self user_age =
     (let rating = content_rating self in
      if rating = G \<or> rating = UNRATED then True
      else if rating = PG then True
      else if rating = PG_13 then user_age \<ge> 13
      else if rating = R then user_age \<ge> 17
      else if rating = NC_17 then user_age \<ge> 18
      else True)"


subsection \<open>content_types.py\<close>

datatype variant =
    Movie (director: string) (cast: "string list") (budget: "real option") (box_office: "real option")
  | TVShow (seasons: int) (total_episodes: int) (status: string)
  | Music (artist: string) (album: string) (track_number: int) (is_explicit: bool)
  | Podcast (host: string) (episode_number: int) (season_number: int) (transcript_available: bool)

text \<open>An object of one of the four subclasses: the fields of the base class, extended by
  the fields of the subclass.\<close>

type_synonym content = "variant MediaContent_scheme"

definition Movie_init ::
  "datetime \<Rightarrow> string \<Rightarrow> int \<Rightarrow> datetime \<Rightarrow> ContentRating \<Rightarrow> string list \<Rightarrow> string
     \<Rightarrow> string \<Rightarrow> string list \<Rightarrow> real option \<Rightarrow> real option \<Rightarrow> error + content" where
  "Movie_init now t d rd cr gs ds director_in cast_in budget_in box_office_in =
     (case MediaContent_init now t d rd cr gs ds of
        Inl e \<Rightarrow> Inl e
      | Inr self \<Rightarrow>
          if director_in = [] then Inl (ValueError ''Director must be a non-empty string'')
          else Inr (MediaContent.extend self
                 (Movie (strip director_in)
                        (map strip (filter (\<lambda>actor. strip actor \<noteq> []) cast_in))
                        budget_in box_office_in)))"

definition TVShow_init ::
  "datetime \<Rightarrow> string \<Rightarrow> int \<Rightarrow> datetime \<Rightarrow> ContentRating \<Rightarrow> string list \<Rightarrow> string
     \<Rightarrow> int \<Rightarrow> int \<Rightarrow> string \<Rightarrow> error + content" where
  "TVShow_init now t d rd cr gs ds seasons_in total_episodes_in status_in =
     (case MediaContent_init now t d rd cr gs ds of
        Inl e \<Rightarrow> Inl e
      | Inr self \<Rightarrow>
          if seasons_in \<le> 0 then Inl (ValueError ''Seasons must be a positive integer'')
          else if total_episodes_in \<le> 0
            then Inl (ValueError ''Total episodes must be a positive integer'')
          else if status_in \<notin> set [''ongoing'', ''completed'', ''cancelled'']
            then Inl (ValueError (''Status must be '' @ quoted ''ongoing'' @ '', ''
                   @ quoted ''completed'' @ '', or '' @ quoted ''cancelled''))
          else Inr (MediaContent.extend self (TVShow seasons_in total_episodes_in status_in)))"

definition Music_init ::
  "datetime \<Rightarrow> string \<Rightarrow> int \<Rightarrow> datetime \<Rightarrow> ContentRating \<Rightarrow> string list \<Rightarrow> string
     \<Rightarrow> string \<Rightarrow> string \<Rightarrow> int \<Rightarrow> bool \<Rightarrow> error + content" where
  "Music_init now t d rd cr gs ds artist_in album_in track_number_in is_explicit_in =
     (case MediaContent_init now t d rd cr gs ds of
        Inl e \<Rightarrow> Inl e
      | Inr self \<Rightarrow>
          if artist_in = [] then Inl (ValueError ''Artist must be a non-empty string'')
          else if album_in = [] then Inl (ValueError ''Album must be a non-empty string'')
          else if track_number_in \<le> 0
            then Inl (ValueError ''Track number must be a positive integer'')
          else Inr (MediaContent.extend self
                 (Music (strip artist_in) (strip album_in) track_number_in is_explicit_in)))"

definition Podcast_init ::
  "datetime \<Rightarrow> string \<Rightarrow> int \<Rightarrow> datetime \<Rightarrow> ContentRating \<Rightarrow> string list \<Rightarrow> string
     \<Rightarrow> string \<Rightarrow> int \<Rightarrow> int \<Rightarrow> bool \<Rightarrow> error + content" where
  "Podcast_init now t d rd cr gs ds host_in episode_number_in season_number_in transcript_in =
     (case MediaContent_init now t d rd cr gs ds of
        Inl e \<Rightarrow> Inl e
      | Inr self \<Rightarrow>
          if host_in = [] then Inl (ValueError ''Host must be a non-empty string'')
          else if episode_number_in \<le> 0
            then Inl (ValueError ''Episode number must be a positive integer'')
          else if season_number_in \<le> 0
            then Inl (ValueError ''Season number must be a positive integer'')
          else Inr (MediaContent.extend self
                 (Podcast (strip host_in) episode_number_in season_number_in transcript_in)))"

fun variant_media_type :: "variant \<Rightarrow> MediaType" where
  "variant_media_type (Movie a b c d) = MOVIE"
| "variant_media_type (TVShow a b c) = TV_SHOW"
| "variant_media_type (Music a b c d) = MUSIC"
| "variant_media_type (Podcast a b c d) = PODCAST"

definition get_media_type :: "content \<Rightarrow> MediaType" where
  \<comment> \<open>the overridden method, dispatched on the class of the object\<close>
  "get_media_type self = variant_media_type (MediaContent.more self)"

text \<open>The methods of class \<open>Movie\<close>; they are applied to objects whose variant is \<open>Movie\<close>.\<close>

definition Movie_can_stream :: "datetime \<Rightarrow> content \<Rightarrow> bool" where
  "Movie_can_stream now self = (\<not> is_recently_released now self 90)"

definition Movie_get_streaming_url :: "datetime \<Rightarrow> content \<Rightarrow> error + string" where
  "Movie_get_streaming_url now self =
     (if \<not> Movie_can_stream now self
      then Inl (ValueError ''Movie not available for streaming yet'')
      else Inr (''https://stream.example.com/movies/'' @ replace_space_dash (lower (title self))))"

definition Movie_is_blockbuster :: "content \<Rightarrow> bool" where
  "Movie_is_blockbuster self =
     (if truthy (budget (MediaContent.more self)) \<and> truthy (box_office (MediaContent.more self))
      then the (box_office (MediaContent.more self)) > the (budget (MediaContent.more self)) * 3
      else False)"

record MovieMetadata =
  md_type :: string
  md_director :: string
  md_cast :: "string list"
  md_budget :: "real option"
  md_box_office :: "real option"
  md_is_blockbuster :: bool

definition Movie_get_metadata :: "content \<Rightarrow> MovieMetadata" where
  "Movie_get_metadata self =
     \<lparr> md_type = MediaType_value (get_media_type self),
       md_director = director (MediaContent.more self),
       md_cast = cast (MediaContent.more self),
       md_budget = budget (MediaContent.more self),
       md_box_office = box_office (MediaContent.more self),
       md_is_blockbuster = Movie_is_blockbuster self \<rparr>"

subsection \<open>library.py\<close>

text \<open>The methods are modelled on a class that exists. The annotation of \<open>get_statistics\<close>
  names \<open>Any\<close> and the body of \<open>get_recently_added\<close> names \<open>timedelta\<close>; the module imports
  neither. The second name is looked up when the method runs, and the model of the method
  says so.\<close>

record SearchFilter =
  filter_genres :: "string set"
  media_types :: "MediaType set"
  content_ratings :: "ContentRating set"
  min_rating :: "real option"
  max_duration :: "int option"
  recently_released_days :: "int option"


definition add_genre_filter :: "SearchFilter \<Rightarrow> string \<Rightarrow> SearchFilter" where
  "add_genre_filter self genre =
     self\<lparr>filter_genres := insert (strip (lower genre)) (filter_genres self)\<rparr>"

definition add_type_filter :: "SearchFilter \<Rightarrow> MediaType \<Rightarrow> SearchFilter" where
  "add_type_filter self media_type = self\<lparr>media_types := insert media_type (media_types self)\<rparr>"



type_synonym ref = nat

text \<open>The object store: the state of the media object behind each reference.\<close>

type_synonym heap = "ref \<Rightarrow> content"

record MediaLibrary =
  lib_name :: string
  lib_content :: "ref list"
  lib_content_by_type :: "MediaType \<Rightarrow> ref list"
  lib_total_views :: int
  lib_created_at :: datetime

definition MediaLibrary_init :: "datetime \<Rightarrow> string \<Rightarrow> MediaLibrary" where
  "MediaLibrary_init now nm =
     \<lparr> lib_name = nm, lib_content = [], lib_content_by_type = (\<lambda>media_type. []),
       lib_total_views = 0, lib_created_at = now \<rparr>"

definition total_content :: "MediaLibrary \<Rightarrow> int" where
  "total_content self = int (length (lib_content self))"

definition total_views :: "heap \<Rightarrow> MediaLibrary \<Rightarrow> int" where
  "total_views h self = sum_list (map (\<lambda>c. view_count (h c)) (lib_content self))"

definition add_content :: "heap \<Rightarrow> MediaLibrary \<Rightarrow> ref \<Rightarrow> (error + unit) \<times> MediaLibrary" where
  \<comment> \<open>\<open>content in self._content\<close> compares with \<open>==\<close>, which is identity of the objects\<close>
  "add_content h self c =
     (if c \<in> set (lib_content self)
      then (Inl (ValueError (''Content '' @ quoted (title (h c)) @ '' already exists in library'')),
            self)
      else (let self1 = self\<lparr>lib_content := lib_content self @ [c]\<rparr>;
                k = get_media_type (h c)
            in (Inr (), self1\<lparr>lib_content_by_type :=
                                (lib_content_by_type self1)(k := lib_content_by_type self1 k @ [c])\<rparr>)))"

definition list_remove :: "ref \<Rightarrow> ref list \<Rightarrow> error + ref list" where
  \<comment> \<open>\<open>xs.remove(x)\<close>: drops the first occurrence, raises when there is none\<close>
  "list_remove x xs =
     (if x \<in> set xs then Inr (remove1 x xs) else Inl (ValueError ''list.remove(x): x not in list''))"

fun remove_content_loop ::
  "heap \<Rightarrow> string \<Rightarrow> MediaLibrary \<Rightarrow> ref list \<Rightarrow> (error + bool) \<times> MediaLibrary" where
  "remove_content_loop h t self [] = (Inr False, self)"
| "remove_content_loop h t self (c # cs) =
     (if lower (title (h c)) = lower t then
        (case list_remove c (lib_content self) of
           Inl e \<Rightarrow> (Inl e, self)
         | Inr content1 \<Rightarrow>
             (let self1 = self\<lparr>lib_content := content1\<rparr>; k = get_media_type (h c) in
              case list_remove c (lib_content_by_type self1 k) of
                Inl e \<Rightarrow> (Inl e, self1)
              | Inr index1 \<Rightarrow>
                  (Inr True, self1\<lparr>lib_content_by_type := (lib_content_by_type self1)(k := index1)\<rparr>)))
      else remove_content_loop h t self cs)"

definition remove_content :: "heap \<Rightarrow> MediaLibrary \<Rightarrow> string \<Rightarrow> (error + bool) \<times> MediaLibrary" where
  "remove_content h self t = remove_content_loop h t self (lib_content self)"

definition get_content_by_type :: "MediaLibrary \<Rightarrow> MediaType \<Rightarrow> ref list" where
  "get_content_by_type self media_type = lib_content_by_type self media_type"



definition sorted_py :: "('a \<Rightarrow> 'k::linorder) \<Rightarrow> bool \<Rightarrow> 'a list \<Rightarrow> 'a list" where
  \<comment> \<open>\<open>sorted(xs, key=key, reverse=reverse)\<close>: a stable sort; with \<open>reverse\<close> the list is
      reversed before and after sorting, which keeps equal keys in their original order\<close>
  "sorted_py key reverse xs = (if reverse then rev (sort_key key (rev xs)) else sort_key key xs)"

definition slice_to :: "int \<Rightarrow> 'a list \<Rightarrow> 'a list" where
  \<comment> \<open>\<open>xs[:n]\<close>: a negative bound counts from the end\<close>
  "slice_to n xs = (if n < 0 then take (nat (int (length xs) + n)) xs else take (nat n) xs)"

definition get_top_rated :: "heap \<Rightarrow> MediaLibrary \<Rightarrow> int \<Rightarrow> ref list" where
  "get_top_rated h self limit =
     slice_to limit
       (sorted_py (\<lambda>x. average_rating (h x)) True
          (filter (\<lambda>c. average_rating (h c) > 0) (lib_content self)))"

definition get_most_viewed :: "heap \<Rightarrow> MediaLibrary \<Rightarrow> int \<Rightarrow> ref list" where
  "get_most_viewed h self limit =
     slice_to limit (sorted_py (\<lambda>x. view_count (h x)) True (lib_content self))"

definition library_globals :: "string list" where
  \<comment> \<open>the names bound at the top level of library.py: its four import statements and its
      two classes\<close>
  "library_globals =
     [''List'', ''Dict'', ''Optional'', ''Set'', ''Callable'',
      ''datetime'',
      ''MediaContent'', ''MediaType'', ''ContentRating'',
      ''Movie'', ''TVShow'',
      ''SearchFilter'', ''MediaLibrary'']"

definition get_recently_added :: "heap \<Rightarrow> datetime \<Rightarrow> MediaLibrary \<Rightarrow> int \<Rightarrow> error + ref list" where
  \<comment> \<open>the body reads the global name \<open>timedelta\<close>, which library.py never imports\<close>
  "get_recently_added h now self days =
     (if ''timedelta'' \<notin> set library_globals
      then Inl (NameError (''name '' @ quoted ''timedelta'' @ '' is not defined''))
      else (let cutoff = now - timedelta days
            in Inr (filter (\<lambda>c. created_at (h c) \<ge> cutoff) (lib_content self))))"

subsection \<open>Predicates of the specification and example objects\<close>


definition fresh_movie :: "string \<Rightarrow> content" where
  \<comment> \<open>the object that \<open>Movie(t, 100, origin, PG, ["Drama"], "", "Dir", [])\<close> builds at
      clock reading 0, for a title without surrounding blanks\<close>
  "fresh_movie t =
     MediaContent.extend
       \<lparr> title = t, duration_minutes = 100, release_date = 0, content_rating = PG,
         genres = [''drama''], description = [], view_count = 0, average_rating = 0,
         ratings = [], created_at = 0 \<rparr>
       (Movie ''Dir'' [] None None)"


definition hit_movie :: content where
  "hit_movie =
     MediaContent.extend
       \<lparr> title = ''Hit'', duration_minutes = 90, release_date = 0, content_rating = PG,
         genres = [''drama''], description = [], view_count = 0, average_rating = 0,
         ratings = [], created_at = 0 \<rparr>
       (Movie ''Dir'' [] (Some 100) (Some 400))"

definition blank_title_movie :: content where
  \<comment> \<open>what the constructor builds from a title of three blanks\<close>
  "blank_title_movie =
     MediaContent.extend
       \<lparr> title = [], duration_minutes = 120, release_date = 0, content_rating = PG,
         genres = [''drama''], description = [], view_count = 0, average_rating = 0,
         ratings = [], created_at = 0 \<rparr>
       (Movie ''Dir'' [] None None)"

definition matrix_movie :: content where
  "matrix_movie =
     MediaContent.extend
       \<lparr> title = ''The Matrix'', duration_minutes = 136, release_date = 0, content_rating = R,
         genres = [''sci-fi''], description = [], view_count = 0, average_rating = 0,
         ratings = [], created_at = 0 \<rparr>
       (Movie ''Dir'' [''Keanu Reeves'', ''Carrie-Anne Moss''] None None)"

text \<open>Sequences of calls on a library and on the objects it refers to. The store holds
  every object that the calls mention; \<open>add_rating\<close> and \<open>add_view\<close> change the object behind a
  reference, \<open>add_content\<close> and \<open>remove_content\<close> change the library.\<close>

datatype operation = AddContent ref | RemoveContent string | AddRating ref pyvalue | AddView ref

fun step :: "heap \<times> MediaLibrary \<Rightarrow> operation \<Rightarrow> heap \<times> MediaLibrary" where
  "step (h, lib) (AddContent c) = (h, snd (add_content h lib c))"
| "step (h, lib) (RemoveContent t) = (h, snd (remove_content h lib t))"
| "step (h, lib) (AddRating c v) = (h(c := snd (add_rating (h c) v)), lib)"
| "step (h, lib) (AddView c) = (h(c := add_view (h c)), lib)"

definition run :: "heap \<Rightarrow> MediaLibrary \<Rightarrow> operation list \<Rightarrow> heap \<times> MediaLibrary" where
  "run h lib ops = foldl step (h, lib) ops"

text \<open>The kind index agrees with the primary collection: for each of the four kinds, the
  index entry is the subsequence of the records of that kind.\<close>

definition index_in_sync :: "heap \<Rightarrow> MediaLibrary \<Rightarrow> bool" where
  "index_in_sync h lib =
     list_all (\<lambda>k. lib_content_by_type lib k = filter (\<lambda>c. get_media_type (h c) = k) (lib_content lib))
       [MOVIE, TV_SHOW, MUSIC, PODCAST]"

text \<open>The test of \<open>remove_content\<close>: equal titles once both are lowercased.\<close>

definition title_matches :: "heap \<Rightarrow> string \<Rightarrow> ref \<Rightarrow> bool" where
  "title_matches h t c = (lower (title (h c)) = lower t)"


text \<open>What the specification asks of \<open>top_rated\<close>, before truncation: the records with a
  positive average, in descending order of the average, records of equal average in their
  original relative order.\<close>

definition rated_content :: "heap \<Rightarrow> MediaLibrary \<Rightarrow> ref list" where
  "rated_content h lib = filter (\<lambda>c. 0 < average_rating (h c)) (lib_content lib)"

definition ranking :: "heap \<Rightarrow> ref list \<Rightarrow> ref list \<Rightarrow> bool" where
  "ranking h xs ys \<longleftrightarrow>
     mset ys = mset xs
     \<and> sorted_wrt (\<lambda>a b. average_rating (h a) \<ge> average_rating (h b)) ys
     \<and> (\<forall>k. filter (\<lambda>c. average_rating (h c) = k) ys = filter (\<lambda>c. average_rating (h c) = k) xs)"

text \<open>The error of a duplicate insertion, and the library after two insertions into a new one.\<close>

definition conflict :: "string \<Rightarrow> error" where
  "conflict t = ValueError (''Content '' @ quoted t @ '' already exists in library'')"

definition after_two_adds :: "heap \<Rightarrow> datetime \<Rightarrow> string \<Rightarrow> ref \<Rightarrow> ref \<Rightarrow> MediaLibrary" where
  "after_two_adds h now nm c1 c2 =
     snd (add_content h (snd (add_content h (MediaLibrary_init now nm) c1)) c2)"

text \<open>Example stores and libraries. \<open>shelf\<close> holds A with average 3, B with average 5, C with
  average 4 and D without ratings; every reference of \<open>twins\<close> holds an object of its own with
  the title A.\<close>

definition rated :: "content \<Rightarrow> real \<Rightarrow> content" where
  "rated m x = snd (add_rating m (PyFloat x))"

definition shelf :: heap where
  "shelf c = (if c = 0 then rated (fresh_movie ''A'') 3
              else if c = 1 then rated (fresh_movie ''B'') 5
              else if c = 2 then rated (fresh_movie ''C'') 4
              else fresh_movie ''D'')"

definition shelf_library :: MediaLibrary where
  "shelf_library =
     snd (run shelf (MediaLibrary_init 0 ''Shelf'')
            [AddContent 0, AddContent 1, AddContent 2, AddContent 3])"

definition twins :: heap where
  "twins c = fresh_movie ''A''"

definition shelf_ops :: "operation list" where
  "shelf_ops = [AddContent 0, AddContent 1, AddContent 0, RemoveContent ''b'', AddContent 2]"

section \<open>Properties\<close>

lemma fresh_movie_init:
  assumes "t \<noteq> []" and "strip t = t"
  shows "Movie_init 0 t 100 0 PG [''Drama''] [] ''Dir'' [] None None = Inr (fresh_movie t)"
proof -
  have "lower (strip ''Drama'') = ''drama''" and "strip ''Dir'' = ''Dir''" and "strip [] = []"
    by code_simp+
  with assms show ?thesis
    by (simp add: Movie_init_def MediaContent_init_def fresh_movie_def)
qed

lemma example_movies_init:
  "Movie_init 0 ''Hit'' 90 0 PG [''Drama''] [] ''Dir'' [] (Some 100) (Some 400) = Inr hit_movie"
  "Movie_init 0 ''The Matrix'' 136 0 R [''Sci-Fi''] [] ''Dir''
     [''Keanu Reeves'', ''Carrie-Anne Moss''] None None = Inr matrix_movie"
  unfolding Movie_init_def MediaContent_init_def hit_movie_def matrix_movie_def
  by code_simp+

subsection \<open>Ratings\<close>



subsection \<open>Recently added records\<close>

text \<open>
  C8. The specification asks \<open>recently_added(d)\<close> for the records created at or after the clock
  reading minus \<open>d\<close> days, without failure. The body of \<open>get_recently_added\<close> reads the name
  \<open>timedelta\<close>, which library.py does not import, so every call ends in a NameError, whatever
  the library and the number of days.
\<close>

theorem get_recently_added_raises:
  "get_recently_added h now self days
     = Inl (NameError (''name '' @ quoted ''timedelta'' @ '' is not defined''))"
  by (simp add: get_recently_added_def library_globals_def)

subsection \<open>Construction\<close>

text \<open>
  C6. The specification wants every constructed record to carry a title that is not empty
  after trimming, and the constructor to reject a title that trimming empties. The constructor
  tests the title before it trims it: a title of blanks passes the test and is stored as the
  empty string.
\<close>

theorem blank_title_accepted:
  "strip ''   '' = []
   \<and> Movie_init 0 ''   '' 120 0 PG [''Drama''] [] ''Dir'' [] None None = Inr blank_title_movie
   \<and> title blank_title_movie = []"
  unfolding Movie_init_def MediaContent_init_def blank_title_movie_def
  by code_simp

text \<open>
  C10. When the title, the duration, the genres and the director are valid, the constructor of
  \<open>Movie\<close> returns an object whatever the cast list holds, and the cast of that object is the
  list of the trimmed entries that are not empty, in the order of the input.
\<close>

theorem Movie_cast_spec:
  assumes "t \<noteq> []" and "0 < d" and "gs \<noteq> []" and "director_in \<noteq> []"
  shows "\<exists>m. Movie_init now t d rd cr gs ds director_in cast_in budget_in box_office_in = Inr m
             \<and> md_cast (Movie_get_metadata m) = filter (\<lambda>s. s \<noteq> []) (map strip cast_in)
             \<and> cast (MediaContent.more m) = filter (\<lambda>s. s \<noteq> []) (map strip cast_in)"
  using assms
  by (simp add: Movie_init_def MediaContent_init_def MediaContent.defs Movie_get_metadata_def
        filter_map comp_def)

theorem Movie_cast_spec_witness:
  "\<exists>m. Movie_init 0 ''The Matrix'' 136 0 R [''Sci-Fi''] [] ''Dir''
         [''  Keanu Reeves'', ''   '', [], ''Carrie-Anne Moss ''] None None = Inr m
       \<and> cast (MediaContent.more m) = [''Keanu Reeves'', ''Carrie-Anne Moss'']"
proof -
  have s: "filter (\<lambda>s. s \<noteq> []) (map strip [''  Keanu Reeves'', ''   '', [], ''Carrie-Anne Moss ''])
        = [''Keanu Reeves'', ''Carrie-Anne Moss'']"
    by code_simp
  from Movie_cast_spec [of "''The Matrix''" 136 "[''Sci-Fi'']" "''Dir''" 0 0 R "[]"
      "[''  Keanu Reeves'', ''   '', [], ''Carrie-Anne Moss '']" None None]
  show ?thesis unfolding s by auto
qed

subsection \<open>Movies\<close>

text \<open>
  C4. At one reading of the clock, \<open>can_stream\<close> of a movie is false exactly when
  \<open>is_recently_released(90)\<close> is true, that is when the release date is not older than the
  clock reading minus 90 days. \<open>get_streaming_url\<close> raises exactly when \<open>can_stream\<close> is false,
  with the message that the movie is not available yet; otherwise it returns the address made
  of the fixed prefix and the lowercased title with blanks replaced by dashes.
\<close>

theorem Movie_streaming_spec:
  "(Movie_can_stream now m = False \<longleftrightarrow> is_recently_released now m 90)
   \<and> (is_recently_released now m 90 \<longleftrightarrow> release_date m \<ge> now - 90 * 86400000000)
   \<and> ((\<exists>e. Movie_get_streaming_url now m = Inl e) \<longleftrightarrow> Movie_can_stream now m = False)
   \<and> (Movie_can_stream now m = False \<longrightarrow>
        Movie_get_streaming_url now m = Inl (ValueError ''Movie not available for streaming yet''))
   \<and> (Movie_can_stream now m \<longrightarrow>
        Movie_get_streaming_url now m
          = Inr (''https://stream.example.com/movies/'' @ replace_space_dash (lower (title m))))"
  by (simp add: Movie_can_stream_def Movie_get_streaming_url_def is_recently_released_def
        timedelta_def)

theorem Movie_streaming_spec_witness:
  "Movie_can_stream (100 * 86400000000) matrix_movie
   \<and> Movie_get_streaming_url (100 * 86400000000) matrix_movie
       = Inr ''https://stream.example.com/movies/the-matrix''
   \<and> Movie_can_stream (90 * 86400000000) matrix_movie = False
   \<and> Movie_get_streaming_url (90 * 86400000000) matrix_movie
       = Inl (ValueError ''Movie not available for streaming yet'')"
proof -
  have t: "replace_space_dash (lower (title matrix_movie)) = ''the-matrix''"
    unfolding matrix_movie_def by code_simp
  have r: "release_date matrix_movie = 0"
    by (simp add: matrix_movie_def MediaContent.defs)
  from Movie_streaming_spec [of "100 * 86400000000" matrix_movie]
       Movie_streaming_spec [of "90 * 86400000000" matrix_movie]
  show ?thesis unfolding t r by auto
qed




subsection \<open>Facts about the example objects\<close>

lemma shelf_avg:
  "average_rating (shelf 0) = 3" "average_rating (shelf 1) = 5"
  "average_rating (shelf 2) = 4" "average_rating (shelf 3) = 0"
  by (simp_all add: shelf_def rated_def add_rating_def fresh_movie_def MediaContent.defs Let_def)

lemma shelf_avg_Suc: "average_rating (shelf (Suc 0)) = 5"
  using shelf_avg(2) by simp

lemma shelf_kind: "get_media_type (shelf c) = MOVIE"
  by (simp add: shelf_def rated_def fresh_movie_def get_media_type_def MediaContent.defs
      add_rating_def Let_def)

lemma shelf_titles:
  "title (shelf 0) = ''A''" "title (shelf 1) = ''B''" "title (shelf (Suc 0)) = ''B''"
  by (simp_all add: shelf_def rated_def add_rating_def fresh_movie_def MediaContent.defs Let_def)

lemma shelf_lower_titles:
  "lower (title (shelf 0)) = ''a''" "lower (title (shelf (Suc 0))) = ''b''"
  "lower (title (shelf 2)) = ''c''" "lower ''b'' = ''b''" "lower ''A'' = ''a''"
  unfolding shelf_def rated_def add_rating_def fresh_movie_def
  by code_simp+

lemma shelf_library_content: "lib_content shelf_library = [0, 1, 2, 3]"
  by (simp add: shelf_library_def run_def add_content_def MediaLibrary_init_def Let_def)

subsection \<open>Adding records\<close>

text \<open>
  C1. The claim reads: adding a record equal to one the library holds raises the conflict
  error and leaves the library unchanged, and in particular adding two records with the same
  title raises on the second call. Equality of records is identity of objects, so two distinct
  objects with the same title are both accepted.
\<close>

theorem same_title_added_twice:
  "title (twins 0) = title (twins 1)
   \<and> fst (add_content twins (MediaLibrary_init 0 ''Twins'') 0) = Inr ()
   \<and> fst (add_content twins (snd (add_content twins (MediaLibrary_init 0 ''Twins'') 0)) 1) = Inr ()
   \<and> total_content (after_two_adds twins 0 ''Twins'' 0 1) = 2"
  by (simp add: twins_def add_content_def MediaLibrary_init_def total_content_def Let_def
      after_two_adds_def)

text \<open>
  C1, amended. When the very object is already in the library, \<open>add_content\<close> raises the
  conflict error, whose message quotes the title, and leaves the library unchanged. Otherwise
  it returns normally, appends the object to the primary collection and the count of records
  grows by one. Adding two distinct objects to a new library succeeds twice and the count
  becomes 2, whether the titles are equal or not; objects with different titles are distinct.
\<close>

theorem add_content_spec:
  "(c \<in> set (lib_content lib) \<longrightarrow> add_content h lib c = (Inl (conflict (title (h c))), lib))
   \<and> (c \<notin> set (lib_content lib) \<longrightarrow>
        fst (add_content h lib c) = Inr ()
        \<and> lib_content (snd (add_content h lib c)) = lib_content lib @ [c]
        \<and> total_content (snd (add_content h lib c)) = total_content lib + 1)
   \<and> (c1 \<noteq> c2 \<or> title (h c1) \<noteq> title (h c2) \<longrightarrow>
        fst (add_content h (MediaLibrary_init now nm) c1) = Inr ()
        \<and> fst (add_content h (snd (add_content h (MediaLibrary_init now nm) c1)) c2) = Inr ()
        \<and> total_content (after_two_adds h now nm c1 c2) = 2)"
  by (auto simp: add_content_def conflict_def MediaLibrary_init_def total_content_def Let_def
      after_two_adds_def)

theorem add_content_spec_witness:
  "add_content shelf (snd (add_content shelf (MediaLibrary_init 0 ''Shelf'') 0)) 0
     = (Inl (conflict ''A''), snd (add_content shelf (MediaLibrary_init 0 ''Shelf'') 0))
   \<and> fst (add_content shelf (snd (add_content shelf (MediaLibrary_init 0 ''Shelf'') 0)) 1) = Inr ()
   \<and> total_content (after_two_adds shelf 0 ''Shelf'' 0 1) = 2"
proof -
  have a: "lib_content (snd (add_content shelf (MediaLibrary_init 0 ''Shelf'') 0)) = [0]"
    by (simp add: add_content_def MediaLibrary_init_def Let_def)
  have t: "title (shelf 0) \<noteq> title (shelf 1)" by (simp add: shelf_titles)
  from add_content_spec [of 0 "snd (add_content shelf (MediaLibrary_init 0 ''Shelf'') 0)" shelf 0 1 0 "''Shelf''"]
  show ?thesis using a t by (simp add: shelf_titles)
qed

subsection \<open>The kind index\<close>

lemma index_in_sync_iff:
  "index_in_sync h lib \<longleftrightarrow>
     (\<forall>k. lib_content_by_type lib k = filter (\<lambda>c. get_media_type (h c) = k) (lib_content lib))"
proof
  assume a: "index_in_sync h lib"
  show "\<forall>k. lib_content_by_type lib k = filter (\<lambda>c. get_media_type (h c) = k) (lib_content lib)"
  proof
    fix k show "lib_content_by_type lib k = filter (\<lambda>c. get_media_type (h c) = k) (lib_content lib)"
      using a by (cases k) (simp_all add: index_in_sync_def)
  qed
next
  assume "\<forall>k. lib_content_by_type lib k = filter (\<lambda>c. get_media_type (h c) = k) (lib_content lib)"
  then show "index_in_sync h lib" by (simp add: index_in_sync_def)
qed

lemma init_in_sync: "index_in_sync h (MediaLibrary_init now nm)"
  by (simp add: index_in_sync_def MediaLibrary_init_def)

lemma add_content_in_sync:
  assumes "index_in_sync h lib"
  shows "index_in_sync h (snd (add_content h lib c))"
  using assms unfolding index_in_sync_iff
  by (auto simp: add_content_def Let_def)

lemma remove_content_loop_result:
  assumes "index_in_sync h lib" and "set cs \<subseteq> set (lib_content lib)"
  shows "remove_content_loop h t lib cs =
     (case find (title_matches h t) cs of
        None \<Rightarrow> (Inr False, lib)
      | Some c \<Rightarrow>
          (Inr True,
           lib\<lparr>lib_content := remove1 c (lib_content lib),
               lib_content_by_type :=
                 (lib_content_by_type lib)
                   (get_media_type (h c) := remove1 c (lib_content_by_type lib (get_media_type (h c))))\<rparr>))"
  using assms(2)
proof (induction cs)
  case Nil
  then show ?case by simp
next
  case (Cons c cs)
  show ?case
  proof (cases "title_matches h t c")
    case True
    have c_in: "c \<in> set (lib_content lib)" using Cons.prems by simp
    moreover have "c \<in> set (lib_content_by_type lib (get_media_type (h c)))"
      using assms(1) c_in unfolding index_in_sync_iff by simp
    ultimately show ?thesis using True
      by (simp add: title_matches_def list_remove_def Let_def)
  next
    case False
    then show ?thesis using Cons by (simp add: title_matches_def)
  qed
qed

lemma remove_content_result:
  assumes "index_in_sync h lib"
  shows "remove_content h lib t =
     (case find (title_matches h t) (lib_content lib) of
        None \<Rightarrow> (Inr False, lib)
      | Some c \<Rightarrow>
          (Inr True,
           lib\<lparr>lib_content := remove1 c (lib_content lib),
               lib_content_by_type :=
                 (lib_content_by_type lib)
                   (get_media_type (h c) := remove1 c (lib_content_by_type lib (get_media_type (h c))))\<rparr>))"
  unfolding remove_content_def using remove_content_loop_result [OF assms] by simp

lemma remove_content_in_sync:
  assumes "index_in_sync h lib"
  shows "index_in_sync h (snd (remove_content h lib t))"
proof (cases "find (title_matches h t) (lib_content lib)")
  case None
  then show ?thesis using assms by (simp add: remove_content_result [OF assms])
next
  case (Some c)
  have s: "\<forall>k. lib_content_by_type lib k = filter (\<lambda>c. get_media_type (h c) = k) (lib_content lib)"
    using assms unfolding index_in_sync_iff .
  have other: "remove1 c (filter (\<lambda>x. get_media_type (h x) = k) (lib_content lib))
           = filter (\<lambda>x. get_media_type (h x) = k) (lib_content lib)"
    if "get_media_type (h c) \<noteq> k" for k
    using that by (simp add: remove1_idem)
  show ?thesis
    unfolding index_in_sync_iff remove_content_result [OF assms] Some
    using s other by (auto simp: filter_remove1)
qed

lemma get_media_type_add_rating [simp]:
  "get_media_type (snd (add_rating m v)) = get_media_type m"
  by (simp add: add_rating_def get_media_type_def Let_def split: option.splits)

lemma get_media_type_add_view [simp]: "get_media_type (add_view m) = get_media_type m"
  by (simp add: add_view_def get_media_type_def)

lemma index_in_sync_heap_cong:
  assumes "index_in_sync h lib" and "\<And>c. get_media_type (h' c) = get_media_type (h c)"
  shows "index_in_sync h' lib"
  using assms unfolding index_in_sync_iff by simp

lemma step_in_sync:
  assumes "index_in_sync (fst s) (snd s)"
  shows "index_in_sync (fst (step s op)) (snd (step s op))"
proof (cases s)
  case (Pair h lib)
  with assms have a: "index_in_sync h lib" by simp
  show ?thesis
  proof (cases op)
    case (AddContent c)
    then show ?thesis using Pair add_content_in_sync [OF a] by simp
  next
    case (RemoveContent t)
    then show ?thesis using Pair remove_content_in_sync [OF a] by simp
  next
    case (AddRating c v)
    then show ?thesis using Pair index_in_sync_heap_cong [OF a, of "h(c := snd (add_rating (h c) v))"]
      by simp
  next
    case (AddView c)
    then show ?thesis using Pair index_in_sync_heap_cong [OF a, of "h(c := add_view (h c))"]
      by simp
  qed
qed

lemma foldl_step_in_sync:
  "index_in_sync (fst s) (snd s) \<Longrightarrow> index_in_sync (fst (foldl step s ops)) (snd (foldl step s ops))"
  by (induction ops arbitrary: s) (simp_all add: step_in_sync)

lemma find_first_match:
  assumes "find P xs = Some c"
  shows "\<exists>pre post. xs = pre @ c # post \<and> (\<forall>x \<in> set pre. \<not> P x) \<and> P c
           \<and> remove1 c xs = pre @ post"
  using assms
proof (induction xs)
  case Nil
  then show ?case by simp
next
  case (Cons x xs)
  show ?case
  proof (cases "P x")
    case True
    with Cons.prems have "x = c" by simp
    with True show ?thesis by (intro exI [of _ "[]"] exI [of _ xs]) simp
  next
    case False
    with Cons obtain pre post where
      p: "xs = pre @ c # post" "\<forall>y \<in> set pre. \<not> P y" "P c" "remove1 c xs = pre @ post"
      by auto
    from False p(3) have "x \<noteq> c" by auto
    with False p show ?thesis by (intro exI [of _ "x # pre"] exI [of _ post]) simp
  qed
qed

text \<open>
  C7. After any sequence of \<open>add_content\<close> and \<open>remove_content\<close> calls on a new library,
  interleaved with any ratings and views of the objects, the index entry of every kind is the
  subsequence of the primary collection made of the records of that kind. On such a library
  \<open>remove_content\<close> never raises: without a record whose lowercased title equals the lowercased
  argument it returns false and changes nothing; otherwise it returns true and removes the
  first such record both from the primary collection and from the index entry of its kind.
\<close>

theorem kind_index_in_sync:
  "lib_content_by_type (snd (run h (MediaLibrary_init now nm) ops)) k
     = filter (\<lambda>c. get_media_type (fst (run h (MediaLibrary_init now nm) ops) c) = k)
         (lib_content (snd (run h (MediaLibrary_init now nm) ops)))
   \<and> remove_content (fst (run h (MediaLibrary_init now nm) ops))
        (snd (run h (MediaLibrary_init now nm) ops)) t
     = (let h' = fst (run h (MediaLibrary_init now nm) ops);
            lib = snd (run h (MediaLibrary_init now nm) ops)
        in case find (title_matches h' t) (lib_content lib) of
             None \<Rightarrow> (Inr False, lib)
           | Some c \<Rightarrow>
               (Inr True,
                lib\<lparr>lib_content := remove1 c (lib_content lib),
                    lib_content_by_type :=
                      (lib_content_by_type lib)
                        (get_media_type (h' c) :=
                           remove1 c (lib_content_by_type lib (get_media_type (h' c))))\<rparr>))"
proof -
  have "index_in_sync (fst (run h (MediaLibrary_init now nm) ops))
          (snd (run h (MediaLibrary_init now nm) ops))"
    unfolding run_def using foldl_step_in_sync [of "(h, MediaLibrary_init now nm)" ops]
    by (simp add: init_in_sync)
  then show ?thesis
    using remove_content_result [of "fst (run h (MediaLibrary_init now nm) ops)"
        "snd (run h (MediaLibrary_init now nm) ops)" t]
    by (simp add: index_in_sync_iff Let_def)
qed

lemma run_shelf_ops:
  "fst (run shelf (MediaLibrary_init 0 ''Shelf'') shelf_ops) = shelf"
  "lib_content (snd (run shelf (MediaLibrary_init 0 ''Shelf'') shelf_ops)) = [0, 2]"
  by (simp_all add: run_def shelf_ops_def add_content_def remove_content_def list_remove_def
      MediaLibrary_init_def Let_def shelf_lower_titles shelf_kind)

theorem kind_index_in_sync_witness:
  "lib_content (snd (run shelf (MediaLibrary_init 0 ''Shelf'') shelf_ops)) = [0, 2]
   \<and> lib_content_by_type (snd (run shelf (MediaLibrary_init 0 ''Shelf'') shelf_ops)) MOVIE = [0, 2]
   \<and> lib_content_by_type (snd (run shelf (MediaLibrary_init 0 ''Shelf'') shelf_ops)) MUSIC = []
   \<and> fst (remove_content shelf (snd (run shelf (MediaLibrary_init 0 ''Shelf'') shelf_ops)) ''A'')
       = Inr True
   \<and> lib_content
       (snd (remove_content shelf (snd (run shelf (MediaLibrary_init 0 ''Shelf'') shelf_ops)) ''A''))
       = [2]
   \<and> lib_content_by_type
       (snd (remove_content shelf (snd (run shelf (MediaLibrary_init 0 ''Shelf'') shelf_ops)) ''A''))
       MOVIE = [2]"
proof -
  have f: "find (title_matches shelf ''A'') [0, 2] = Some 0"
    by (simp add: title_matches_def shelf_lower_titles)
  from kind_index_in_sync [of shelf 0 "''Shelf''" shelf_ops MOVIE "''A''"]
       kind_index_in_sync [of shelf 0 "''Shelf''" shelf_ops MUSIC "''A''"]
  show ?thesis
    unfolding run_shelf_ops Let_def f by (simp add: shelf_kind)
qed

subsection \<open>Search\<close>





subsection \<open>Ranking\<close>

lemma sorted_py_reverse_ranking:
  "ranking h xs (sorted_py (\<lambda>x. average_rating (h x)) True xs)"
proof -
  let ?f = "\<lambda>x. average_rating (h x)"
  let ?ys = "rev (sort_key ?f (rev xs))"
  have m: "mset ?ys = mset xs" by simp
  have "sorted (map ?f (sort_key ?f (rev xs)))" by (rule sorted_sort_key)
  then have "sorted_wrt (\<lambda>a b. ?f a \<le> ?f b) (sort_key ?f (rev xs))"
    by (simp add: sorted_wrt_map)
  then have s: "sorted_wrt (\<lambda>a b. ?f a \<ge> ?f b) ?ys"
    by (simp add: sorted_wrt_rev)
  have st: "filter (\<lambda>c. ?f c = k) ?ys = filter (\<lambda>c. ?f c = k) xs" for k
  proof -
    have "filter (\<lambda>c. ?f c = k) ?ys = rev (filter (\<lambda>c. ?f c = k) (sort_key ?f (rev xs)))"
      by (simp add: rev_filter)
    also have "\<dots> = rev (filter (\<lambda>c. ?f c = k) (rev xs))"
      by (simp add: sort_key_stable)
    also have "\<dots> = filter (\<lambda>c. ?f c = k) xs"
      by (simp add: rev_filter)
    finally show ?thesis .
  qed
  show ?thesis unfolding ranking_def sorted_py_def using m s st by simp
qed

lemma ranking_unique:
  assumes "ranking h xs ys" and "ranking h xs zs"
  shows "ys = zs"
proof -
  let ?f = "\<lambda>x. - average_rating (h x)"
  have key: "sort_key ?f xs = us" if "ranking h xs us" for us
  proof (rule properties_for_sort_key)
    show "mset us = mset xs" using that by (simp add: ranking_def)
    show "filter (\<lambda>x. ?f k = ?f x) us = filter (\<lambda>x. ?f k = ?f x) xs" for k
    proof -
      have "(\<lambda>x. ?f k = ?f x) = (\<lambda>c. average_rating (h c) = average_rating (h k))" by auto
      then show ?thesis using that by (simp add: ranking_def)
    qed
    have "sorted_wrt (\<lambda>a b. ?f a \<le> ?f b) us" using that by (simp add: ranking_def)
    then show "sorted (map ?f us)" by (simp add: sorted_wrt_map)
  qed
  from key [OF assms(1)] key [OF assms(2)] show ?thesis by simp
qed

lemma shelf_rated: "rated_content shelf shelf_library = [0, 1, 2]"
  by (simp add: rated_content_def shelf_library_content shelf_avg shelf_avg_Suc)

lemma shelf_ranking: "ranking shelf [0, 1, 2] [1, 2, 0]"
  by (simp add: ranking_def shelf_avg shelf_avg_Suc)

text \<open>
  C5. The claim reads: for every limit \<open>n\<close>, \<open>get_top_rated(n)\<close> is the ranking of the rated
  records truncated to its first \<open>n\<close> records. The truncation is the slice \<open>[:n]\<close>, and a
  negative bound counts from the end: with the limit \<open>-1\<close> on the library of A, B, C and D the
  call returns two records, B and C, where the first \<open>-1\<close> records of the ranking are none.
\<close>

theorem negative_limit_drops_last:
  "ranking shelf (rated_content shelf shelf_library) [1, 2, 0]
   \<and> get_top_rated shelf shelf_library (- 1) = [1, 2]
   \<and> take (nat (- 1)) [1, 2, 0::nat] = []
   \<and> length (get_top_rated shelf shelf_library (- 1)) = 2"
proof -
  have "sorted_py (\<lambda>x. average_rating (shelf x)) True [0, 1, 2] = [1, 2, 0]"
    using ranking_unique [OF sorted_py_reverse_ranking shelf_ranking] .
  then have c1: "get_top_rated shelf shelf_library (- 1) = [1, 2]"
    by (simp add: get_top_rated_def slice_to_def shelf_rated [unfolded rated_content_def])
  have c3: "ranking shelf (rated_content shelf shelf_library) [1, 2, 0]"
    unfolding shelf_rated by (rule shelf_ranking)
  show ?thesis using c1 c3 by simp
qed

text \<open>
  C5, amended. There is exactly one ranking of the records with a positive average: it holds
  those records and no others, in descending order of the average, records of equal average
  in their original relative order. For a limit \<open>n\<close> of zero or more \<open>get_top_rated(n)\<close> is
  the first \<open>n\<close> records of that ranking; for a negative limit it is the ranking without its
  last \<open>-n\<close> records. On A with 3.0, B with 5.0, C with 4.0 and D without ratings the limit 2
  gives B, C.
\<close>

theorem get_top_rated_spec:
  "\<exists>ranked. ranking h (rated_content h lib) ranked
     \<and> (\<forall>other. ranking h (rated_content h lib) other \<longrightarrow> other = ranked)
     \<and> get_top_rated h lib n
         = (if 0 \<le> n then take (nat n) ranked else take (length ranked - nat (- n)) ranked)"
proof -
  let ?r = "sorted_py (\<lambda>x. average_rating (h x)) True (rated_content h lib)"
  have a: "ranking h (rated_content h lib) ?r" by (rule sorted_py_reverse_ranking)
  have b: "\<forall>other. ranking h (rated_content h lib) other \<longrightarrow> other = ?r"
    using ranking_unique [OF _ a] by blast
  have "nat (int (length ?r) + n) = length ?r - nat (- n)" if "n < 0"
    using that by linarith
  then have c: "get_top_rated h lib n
      = (if 0 \<le> n then take (nat n) ?r else take (length ?r - nat (- n)) ?r)"
    by (simp add: get_top_rated_def slice_to_def rated_content_def)
  from a b c show ?thesis by blast
qed

theorem get_top_rated_spec_witness:
  "rated_content shelf shelf_library = [0, 1, 2]
   \<and> get_top_rated shelf shelf_library 2 = [1, 2]
   \<and> get_top_rated shelf shelf_library 10 = [1, 2, 0]"
proof -
  from get_top_rated_spec [of shelf shelf_library 2]
  obtain r2 where r2: "\<forall>other. ranking shelf [0, 1, 2] other \<longrightarrow> other = r2"
      "get_top_rated shelf shelf_library 2 = take 2 r2"
    unfolding shelf_rated by auto
  from get_top_rated_spec [of shelf shelf_library 10]
  obtain r10 where r10: "\<forall>other. ranking shelf [0, 1, 2] other \<longrightarrow> other = r10"
      "get_top_rated shelf shelf_library 10 = take 10 r10"
    unfolding shelf_rated by auto
  from r2(1) shelf_ranking have "r2 = [1, 2, 0]" by blast
  moreover from r10(1) shelf_ranking have "r10 = [1, 2, 0]" by blast
  ultimately show ?thesis using r2(2) r10(2) shelf_rated by simp
qed

end
